theory Spec2Isabelle
  imports Main "HOL-Library.Word" "HOL-Library.AList"
begin

section \<open>Hyperion messaging core: sockets, framing and the two servers\<close>

text \<open>
  A shallow embedding of \<^verbatim>\<open>hyperion/lib/networking/server.py\<close> and of the part of
  \<^verbatim>\<open>hyperion/lib/util/config.py\<close> it uses. Mutable objects become explicit state,
  exceptions become the left summand of a sum type, and a loop that may spin forever
  returns \<open>None\<close> when it does.
\<close>

subsection \<open>Exceptions\<close>

datatype pyerror =
    KeyError
  | IndexError
  | TypeError
  | AssertionError
  | SocketError
  | StructError
  | SlaveNotReachableException string

subsection \<open>Sockets as byte sources\<close>

type_synonym byte = "8 word"

text \<open>
  What a non-blocking stream socket hands to successive \<^verbatim>\<open>recv\<close> calls: a non-empty
  run of bytes that has arrived (\<open>Chunk b bs\<close> holds \<open>b # bs\<close>) followed by more, the
  end of the stream (\<open>Eof\<close>: every further \<^verbatim>\<open>recv\<close> yields \<^verbatim>\<open>b""\<close>), or no data
  yet (\<open>Stalled\<close>: \<^verbatim>\<open>recv\<close> raises \<^verbatim>\<open>BlockingIOError\<close>, a \<^verbatim>\<open>socket.error\<close>).
\<close>

datatype source = Chunk byte "byte list" source | Eof | Stalled

text \<open>\<^verbatim>\<open>connection.recv(bufsize)\<close>: at most \<open>bufsize\<close> bytes of what has arrived.\<close>

fun recv :: "source \<Rightarrow> nat \<Rightarrow> pyerror + (byte list \<times> source)" where
  "recv Eof bufsize = Inr ([], Eof)"
| "recv Stalled bufsize = Inl SocketError"
| "recv (Chunk b bs rest) bufsize =
     (case drop bufsize (b # bs) of
        [] \<Rightarrow> Inr (b # bs, rest)
      | c # cs \<Rightarrow> Inr (take bufsize (b # bs), Chunk c cs rest))"

text \<open>
  \<^verbatim>\<open>recvall(connection, n)\<close>. The loop has no exit on an empty packet, so it is a
  partial function: \<open>None\<close> is the run that never returns. The byte count \<open>n\<close> is the
  unsigned 32-bit frame header at both call sites, hence a natural number.
\<close>

partial_function (option) recvall_loop ::
  "source \<Rightarrow> nat \<Rightarrow> byte list \<Rightarrow> (pyerror + (byte list \<times> source)) option" where
  "recvall_loop connection n data =
     (if length data < n then
        (case recv connection (n - length data) of
           Inl e \<Rightarrow> Some (Inl e)
         | Inr (packet, connection') \<Rightarrow> recvall_loop connection' n (data @ packet))
      else Some (Inr (data, connection)))"

definition recvall :: "source \<Rightarrow> nat \<Rightarrow> (pyerror + (byte list \<times> source)) option" where
  "recvall connection n = recvall_loop connection n []"

text \<open>
  The stream ends before \<open>k\<close> more bytes have arrived: every chunk on the way is
  shorter than what is still missing, and then comes \<open>Eof\<close>.
\<close>

fun eof_before :: "source \<Rightarrow> nat \<Rightarrow> bool" where
  "eof_before Eof k = (0 < k)"
| "eof_before Stalled k = False"
| "eof_before (Chunk b bs rest) k =
     (Suc (length bs) < k \<and> eof_before rest (k - Suc (length bs)))"

subsection \<open>Configuration constants\<close>

datatype CheckState =
    RUNNING
  | STOPPED
  | STOPPED_BUT_SUCCESSFUL
  | STARTED_BY_HAND
  | DEP_FAILED
  | UNREACHABLE
  | NOT_INSTALLED

fun STATE_DESCRIPTION :: "CheckState \<Rightarrow> string" where
  "STATE_DESCRIPTION RUNNING = ''RUNNING''"
| "STATE_DESCRIPTION STOPPED = ''STOPPED''"
| "STATE_DESCRIPTION UNREACHABLE = ''HOST UNREACHABLE''"
| "STATE_DESCRIPTION NOT_INSTALLED = ''HYPERION NOT INSTALLED ON REMOTE''"
| "STATE_DESCRIPTION DEP_FAILED = ''DEPENDENCY FAILED''"
| "STATE_DESCRIPTION STARTED_BY_HAND = ''RUNNING BUT NOT STARTED BY HYPERION''"
| "STATE_DESCRIPTION STOPPED_BUT_SUCCESSFUL = ''STOPPED BUT CHECK WAS SUCCESSFUL''"

text \<open>
  Modelled from the spec: \<^verbatim>\<open>config.HostConnectionState\<close> is used by the server but
  its declaration is not part of the given \<^verbatim>\<open>config.py\<close>. The spec names the member
  \<^verbatim>\<open>DISCONNECTED\<close> only; the other members are kept apart by a number.
\<close>

datatype HostConnectionState = DISCONNECTED | OtherConnectionState nat

subsection \<open>Events and payload values\<close>

type_synonym hostname = string
type_synonym comp_id = string

text \<open>
  Modelled from the spec: the module \<^verbatim>\<open>hyperion.lib.util.events\<close> is not part of the
  given sources. The spec's data model lists the event variants as a closed set of
  tagged variants; the variants the core only forwards are \<open>OtherEvent\<close>.
\<close>

datatype event =
    QueueEvent
  | CheckEvent comp_id CheckState
  | DisconnectEvent hostname
  | SlaveReconnectEvent hostname nat
  | SlaveDisconnectEvent hostname nat
  | OtherEvent string

text \<open>
  The values that travel as arguments of an action: \<^verbatim>\<open>None\<close>, strings, booleans, events, the
  host-state dictionary, and values of the control centre that the core passes on
  without looking into them (the configuration snapshot, the host statistics).
\<close>

datatype 'x arg =
    NoneVal
  | Str string
  | Bool bool
  | Event event
  | HostStates "hostname \<rightharpoonup> (int \<times> HostConnectionState)"
  | Opaque 'x

subsection \<open>Connections, queues and the base server\<close>

text \<open>
  An accepted socket: its file descriptor and the peer address that
  \<^verbatim>\<open>getpeername()\<close> reports.
\<close>

datatype connection = Connection (fileno: nat) (peer_host: string) (peer_port: nat)

datatype level = DEBUG | INFO | ERROR | CRITICAL

text \<open>
  An operation that raises leaves the state as it was at the \<^verbatim>\<open>raise\<close>: the left
  summand carries the exception and that state.
\<close>

type_synonym ('s, 'a) outcome = "(pyerror \<times> 's) + 'a"

text \<open>
  \<open>send_queues\<close> is a dictionary in insertion order: an association list with distinct
  keys. The \<^verbatim>\<open>queue.Queue\<close> of a connection is the list of messages waiting, oldest
  first. \<open>sel\<close> holds the peers registered with the selector, \<open>sel_closed\<close> tells
  whether \<^verbatim>\<open>sel.close()\<close> has run, and \<open>closed\<close> holds the sockets on which
  \<^verbatim>\<open>close()\<close> has been called. \<open>logger\<close> collects the records handed to
  \<^verbatim>\<open>self.logger\<close> with their level; a text that formats a Python object keeps its
  fixed part and the strings in it.
\<close>

record 'm BaseServer =
  sel :: "connection set"
  sel_closed :: bool
  keep_running :: bool
  logger :: "(level \<times> string) list"
  send_queues :: "(connection \<times> 'm list) list"
  closed :: "connection set"

definition log_msg :: "level \<Rightarrow> string \<Rightarrow> ('m, 'z) BaseServer_scheme \<Rightarrow> ('m, 'z) BaseServer_scheme" where
  "log_msg lvl text st = st\<lparr>logger := logger st @ [(lvl, text)]\<rparr>"

text \<open>\<^verbatim>\<open>queue.put(message)\<close> on the queue stored under a key.\<close>

definition queue_put :: "connection \<Rightarrow> 'm \<Rightarrow> (connection \<times> 'm list) list \<Rightarrow> (connection \<times> 'm list) list" where
  "queue_put connection message qs = AList.map_entry connection (\<lambda>q. q @ [message]) qs"


subsection \<open>The slave management server\<close>

record ('m, 'x) SlaveManagementServer = "'m BaseServer" +
  notify_queue :: "'x arg list"
  check_buffer :: "comp_id \<rightharpoonup> CheckState option"
  slave_log_handlers :: "string \<rightharpoonup> 'x arg list list"
  port_mapping :: "connection \<rightharpoonup> hostname"

text \<open>\<^verbatim>\<open>_forward_event(event)\<close>.\<close>

definition forward_event ::
  "('m, 'x) SlaveManagementServer \<Rightarrow> 'x arg \<Rightarrow> ('m, 'x) SlaveManagementServer" where
  "forward_event st event =
     (let st1 = st\<lparr>notify_queue := notify_queue st @ [event]\<rparr>
      in case event of
           Event (CheckEvent comp_id check_state) \<Rightarrow>
             st1\<lparr>check_buffer := (check_buffer st1)(comp_id \<mapsto> Some check_state)\<rparr>
         | _ \<Rightarrow> st1)"

text \<open>
  The scan shared by the outbound operations:
  \<^verbatim>\<open>for connection in self.send_queues: if self.port_mapping.get(connection) == hostname: ... break\<close>.
  It yields the first registered connection whose identity is the hostname.
\<close>

definition find_connection ::
  "('m, 'x) SlaveManagementServer \<Rightarrow> hostname \<Rightarrow> connection option" where
  "find_connection st hostname =
     find (\<lambda>connection. port_mapping st connection = Some hostname) (map fst (send_queues st))"

definition quoted :: "string \<Rightarrow> string" where
  "quoted s = [CHR 0x27] @ s @ [CHR 0x27]"

definition start_clone_session ::
  "(string \<Rightarrow> 'x arg list \<Rightarrow> 'm) \<Rightarrow> ('m, 'x) SlaveManagementServer \<Rightarrow> comp_id \<Rightarrow> hostname
    \<Rightarrow> (('m, 'x) SlaveManagementServer, ('m, 'x) SlaveManagementServer) outcome" where
  "start_clone_session serialize_request st comp_id hostname =
     (let action = ''start_clone_session'';
          payload = [Str comp_id];
          message = serialize_request action payload;
          connection_queue = find_connection st hostname
      in case connection_queue of
           Some connection \<Rightarrow>
             Inr (st\<lparr>send_queues := queue_put connection message (send_queues st)\<rparr>)
         | None \<Rightarrow>
             Inl (SlaveNotReachableException
                    (''Slave at '' @ quoted hostname @ '' is not reachable!''), st))"

definition start_component ::
  "(string \<Rightarrow> 'x arg list \<Rightarrow> 'm) \<Rightarrow> ('m, 'x) SlaveManagementServer \<Rightarrow> comp_id \<Rightarrow> hostname
    \<Rightarrow> (('m, 'x) SlaveManagementServer, ('m, 'x) SlaveManagementServer) outcome" where
  "start_component serialize_request st comp_id hostname =
     (let action = ''start'';
          payload = [Str comp_id];
          message = serialize_request action payload;
          connection_queue = find_connection st hostname
      in case connection_queue of
           Some connection \<Rightarrow>
             Inr (st\<lparr>send_queues := queue_put connection message (send_queues st)\<rparr>)
         | None \<Rightarrow>
             Inl (SlaveNotReachableException
                    (''Slave at '' @ quoted hostname @ '' is not reachable!''), st))"

definition stop_component ::
  "(string \<Rightarrow> 'x arg list \<Rightarrow> 'm) \<Rightarrow> ('m, 'x) SlaveManagementServer \<Rightarrow> comp_id \<Rightarrow> hostname
    \<Rightarrow> (('m, 'x) SlaveManagementServer, ('m, 'x) SlaveManagementServer) outcome" where
  "stop_component serialize_request st comp_id hostname =
     (let action = ''stop'';
          payload = [Str comp_id];
          message = serialize_request action payload;
          connection_queue = find_connection st hostname
      in case connection_queue of
           Some connection \<Rightarrow>
             Inr (st\<lparr>send_queues := queue_put connection message (send_queues st)\<rparr>)
         | None \<Rightarrow>
             Inl (SlaveNotReachableException
                    (''Slave at '' @ quoted hostname @ '' is not reachable!''), st))"

subsection \<open>Time and the other threads\<close>

text \<open>
  \<^verbatim>\<open>check_component\<close> polls state that worker threads of the reactor write while it
  sleeps. The clock counts milliseconds. \<open>pending\<close> holds the events that slaves have
  still to deliver, each with the clock reading at which its worker thread runs
  \<^verbatim>\<open>_forward_event\<close>; the shared state at clock reading \<open>t\<close> has received every event due
  at \<open>t\<close> or before. \<^verbatim>\<open>time.sleep(0.5)\<close> advances the clock by exactly 500.
\<close>

record 'x world =
  clock :: int
  pending :: "(int \<times> 'x arg) list"

definition due :: "'x world \<Rightarrow> 'x arg list" where
  "due w = map snd (filter (\<lambda>(t, a). t \<le> clock w) (pending w))"

definition deliver_state ::
  "('m, 'x) SlaveManagementServer \<Rightarrow> 'x world \<Rightarrow> ('m, 'x) SlaveManagementServer" where
  "deliver_state st w = foldl forward_event st (due w)"

definition deliver_world :: "'x world \<Rightarrow> 'x world" where
  "deliver_world w = w\<lparr>pending := filter (\<lambda>(t, a). \<not> t \<le> clock w) (pending w)\<rparr>"

definition sleep :: "int \<Rightarrow> 'x world \<Rightarrow> 'x world" where
  "sleep ms w = w\<lparr>clock := clock w + ms\<rparr>"

text \<open>
  The wait loop of \<^verbatim>\<open>check_component\<close>:
  \<^verbatim>\<open>while end_t > time.time(): if self.check_buffer[comp_id] is not None: break; time.sleep(0.5)\<close>.
\<close>

function wait_loop ::
  "('m, 'x) SlaveManagementServer \<Rightarrow> 'x world \<Rightarrow> comp_id \<Rightarrow> int
    \<Rightarrow> (('m, 'x) SlaveManagementServer \<times> 'x world, ('m, 'x) SlaveManagementServer \<times> 'x world) outcome" where
  "wait_loop st w comp_id end_t =
     (let st1 = deliver_state st w;
          w1 = deliver_world w
      in if end_t > clock w1 then
           (case check_buffer st1 comp_id of
              None \<Rightarrow> Inl (KeyError, (st1, w1))
            | Some (Some check_state) \<Rightarrow> Inr (st1, w1)
            | Some None \<Rightarrow> wait_loop st1 (sleep 500 w1) comp_id end_t)
         else Inr (st1, w1))"
  by pat_completeness auto
termination
  by (relation "measure (\<lambda>(st, w, comp_id, end_t). nat (end_t - clock w))")
     (auto simp: deliver_world_def sleep_def)

declare wait_loop.simps [simp del]

text \<open>\<^verbatim>\<open>check_component(comp_id, hostname, component_wait)\<close>, the wait in milliseconds.\<close>

definition check_component ::
  "(string \<Rightarrow> 'x arg list \<Rightarrow> 'm) \<Rightarrow> ('m, 'x) SlaveManagementServer \<Rightarrow> 'x world
    \<Rightarrow> comp_id \<Rightarrow> hostname \<Rightarrow> int
    \<Rightarrow> (('m, 'x) SlaveManagementServer \<times> 'x world,
        CheckState \<times> ('m, 'x) SlaveManagementServer \<times> 'x world) outcome" where
  "check_component serialize_request st0 w0 comp_id hostname component_wait =
     (let st = log_msg DEBUG (''Sending '' @ quoted comp_id @ '' check request to '' @ quoted hostname)
                 (deliver_state st0 w0);
          w = deliver_world w0;
          action = ''check'';
          payload = [Str comp_id];
          message = serialize_request action payload;
          connection_queue = find_connection st hostname;
          st = st\<lparr>check_buffer := (check_buffer st)(comp_id \<mapsto> None)\<rparr>;
          waited =
            (case connection_queue of
               Some connection \<Rightarrow>
                 (let st = st\<lparr>send_queues := queue_put connection message (send_queues st)\<rparr>;
                      end_t = clock w + component_wait + 1000;
                      st = log_msg DEBUG (''Waiting on '' @ quoted hostname @ '' response'') st
                  in wait_loop st w comp_id end_t)
             | None \<Rightarrow>
                 Inr (log_msg ERROR (''Slave on '' @ quoted hostname @ '' is not connected!'') st, w))
      in case waited of
           Inl e \<Rightarrow> Inl e
         | Inr (st, w) \<Rightarrow>
             (case check_buffer st comp_id of
                None \<Rightarrow> Inl (KeyError, (st, w))
              | Some (Some ret) \<Rightarrow>
                  Inr (ret, log_msg DEBUG (''Slave answered check request with '' @ STATE_DESCRIPTION ret) st, w)
              | Some None \<Rightarrow>
                  Inr (UNREACHABLE, log_msg ERROR ''No answer from slave - returning unreachable'' st, w)))"

subsection \<open>Dictionary, selector and socket primitives\<close>

text \<open>Sequencing of two steps, the second skipped when the first raises.\<close>

definition and_then :: "('s, 's) outcome \<Rightarrow> ('s \<Rightarrow> ('s, 'a) outcome) \<Rightarrow> ('s, 'a) outcome" where
  "and_then r f = (case r of Inl e \<Rightarrow> Inl e | Inr st \<Rightarrow> f st)"

text \<open>\<^verbatim>\<open>self.send_queues.pop(connection)\<close>: \<^verbatim>\<open>KeyError\<close> when the key is absent.\<close>

definition send_queues_pop ::
  "connection \<Rightarrow> ('m, 'z) BaseServer_scheme \<Rightarrow> (('m, 'z) BaseServer_scheme, ('m, 'z) BaseServer_scheme) outcome" where
  "send_queues_pop connection st =
     (if connection \<in> fst ` set (send_queues st)
      then Inr (st\<lparr>send_queues := AList.delete connection (send_queues st)\<rparr>)
      else Inl (KeyError, st))"

text \<open>\<^verbatim>\<open>self.sel.unregister(connection)\<close>: \<^verbatim>\<open>KeyError\<close> when it is not registered.\<close>

definition sel_unregister ::
  "connection \<Rightarrow> ('m, 'z) BaseServer_scheme \<Rightarrow> (('m, 'z) BaseServer_scheme, ('m, 'z) BaseServer_scheme) outcome" where
  "sel_unregister connection st =
     (if connection \<in> sel st
      then Inr (st\<lparr>sel := sel st - {connection}\<rparr>)
      else Inl (KeyError, st))"

text \<open>\<^verbatim>\<open>connection.close()\<close>.\<close>

definition close :: "connection \<Rightarrow> ('m, 'z) BaseServer_scheme \<Rightarrow> ('m, 'z) BaseServer_scheme" where
  "close connection st = st\<lparr>closed := insert connection (closed st)\<rparr>"

text \<open>\<^verbatim>\<open>struct.unpack(">I", raw)[0]\<close>: \<^verbatim>\<open>struct.error\<close> unless there are four bytes.\<close>

fun unpack_be32 :: "byte list \<Rightarrow> nat option" where
  "unpack_be32 [a, b, c, d] = Some (((unat a * 256 + unat b) * 256 + unat c) * 256 + unat d)"
| "unpack_be32 raw = None"

subsection \<open>Inbound actions of the slave server\<close>

text \<open>
  The handler table of the slave server, \<^verbatim>\<open>function_mapping\<close>. Two of its keys are
  bound to \<^verbatim>\<open>None\<close>, and \<^verbatim>\<open>.get(action)\<close> yields \<^verbatim>\<open>None\<close> for them as for a missing
  key.
\<close>

datatype slave_handler = Forward_event

definition slave_function_mapping :: "string \<rightharpoonup> slave_handler option" where
  "slave_function_mapping =
     [''queue_event'' \<mapsto> Some Forward_event, ''auth'' \<mapsto> None, ''unsubscribe'' \<mapsto> None]"

definition dict_get :: "('k \<rightharpoonup> 'v option) \<Rightarrow> 'k \<Rightarrow> 'v option" where
  "dict_get d k = (case d k of None \<Rightarrow> None | Some v \<Rightarrow> v)"

text \<open>
  \<^verbatim>\<open>func(*args)\<close> for the bound method \<^verbatim>\<open>_forward_event(event)\<close>: a call with any
  other number of arguments raises \<^verbatim>\<open>TypeError\<close> before the body runs.
\<close>

fun call_slave_handler ::
  "slave_handler \<Rightarrow> 'x arg list \<Rightarrow> ('m, 'x) SlaveManagementServer
    \<Rightarrow> (('m, 'x) SlaveManagementServer, ('m, 'x) SlaveManagementServer) outcome" where
  "call_slave_handler Forward_event [event] st = Inr (forward_event st event)"
| "call_slave_handler Forward_event args st = Inl (TypeError, st)"

text \<open>
  \<^verbatim>\<open>SlaveManagementServer._interpret_message(action, args, connection)\<close>. The wire
  protocol's \<^verbatim>\<open>auth\<close> carries the slave's hostname, a string; an \<^verbatim>\<open>auth\<close> whose first
  argument is not a string is outside the typed model and is reported as a
  \<^verbatim>\<open>TypeError\<close>.
\<close>

definition SlaveManagementServer_interpret_message ::
  "('m, 'x) SlaveManagementServer \<Rightarrow> string \<Rightarrow> 'x arg list \<Rightarrow> connection
    \<Rightarrow> (('m, 'x) SlaveManagementServer, ('m, 'x) SlaveManagementServer) outcome" where
  "SlaveManagementServer_interpret_message st action args connection =
     (let func = dict_get slave_function_mapping action
      in if action = ''unsubscribe'' then
           and_then (send_queues_pop connection st) (\<lambda>st.
           and_then (sel_unregister connection st) (\<lambda>st.
             Inr (close connection
                    (log_msg INFO (''Client '' @ peer_host connection @ '' unsubscribed'') st))))
         else if action = ''auth'' then
           (case args of
              [] \<Rightarrow> Inl (IndexError, st)
            | Str hostname # rest \<Rightarrow>
                Inr (st\<lparr>port_mapping := (port_mapping st)(connection \<mapsto> hostname)\<rparr>)
            | other # rest \<Rightarrow> Inl (TypeError, st))
         else
           (case func of
              None \<Rightarrow> Inl (AssertionError, st)
            | Some handler \<Rightarrow>
                (case call_slave_handler handler args st of
                   Inl (e, st') \<Rightarrow>
                     (if e = TypeError
                      then Inr (log_msg ERROR
                                  (''Ignoring unrecognized slave action '' @ quoted action) st')
                      else Inl (e, st'))
                 | Inr st' \<Rightarrow> Inr st')))"

subsection \<open>The read callback of the slave server\<close>

text \<open>
  The two handlers that close \<^verbatim>\<open>read\<close>: after \<^verbatim>\<open>KeyError\<close> and after
  \<^verbatim>\<open>socket.error\<close> the connection is dropped. An exception raised inside a handler
  leaves \<^verbatim>\<open>read\<close>.
\<close>

definition drop_connection ::
  "connection \<Rightarrow> ('m, 'x) SlaveManagementServer
    \<Rightarrow> (('m, 'x) SlaveManagementServer, ('m, 'x) SlaveManagementServer) outcome" where
  "drop_connection connection st =
     and_then (send_queues_pop connection st) (\<lambda>st.
     and_then (sel_unregister connection st) (\<lambda>st.
       Inr (close connection st)))"

definition on_KeyError ::
  "connection \<Rightarrow> ('m, 'x) SlaveManagementServer
    \<Rightarrow> (('m, 'x) SlaveManagementServer, ('m, 'x) SlaveManagementServer) outcome" where
  "on_KeyError connection st =
     drop_connection connection
       (log_msg ERROR ''Could not get hostname of connection where message was read from. This should not happen, dropping connection.'' st)"

definition on_socket_error ::
  "connection \<Rightarrow> ('m, 'x) SlaveManagementServer
    \<Rightarrow> (('m, 'x) SlaveManagementServer, ('m, 'x) SlaveManagementServer) outcome" where
  "on_socket_error connection st =
     drop_connection connection
       (log_msg DEBUG ''Socket excpetion''
         (log_msg ERROR ''Something went wrong while receiving a message. Check debug for more information'' st))"

text \<open>
  The branch of \<^verbatim>\<open>read\<close> taken when \<^verbatim>\<open>recv(4)\<close> yields no bytes, inside the
  \<^verbatim>\<open>try\<close>: each of the first three steps may raise \<^verbatim>\<open>KeyError\<close>.
\<close>

definition connection_lost ::
  "connection \<Rightarrow> ('m, 'x) SlaveManagementServer
    \<Rightarrow> (('m, 'x) SlaveManagementServer, ('m, 'x) SlaveManagementServer) outcome" where
  "connection_lost connection st =
     (case port_mapping st connection of
        None \<Rightarrow> Inl (KeyError, st)
      | Some hostname \<Rightarrow>
          and_then (send_queues_pop connection st) (\<lambda>st.
          and_then (sel_unregister connection st) (\<lambda>st.
            (let st = log_msg ERROR (''Connection to client '' @ quoted hostname @ '' was lost!'') st;
                 st = st\<lparr>notify_queue := notify_queue st @
                           [Event (SlaveDisconnectEvent hostname (peer_port connection))]\<rparr>
             in Inr (close connection st)))))"

text \<open>
  \<^verbatim>\<open>SlaveManagementServer.read(connection)\<close>. \<open>rx\<close> is what the socket will deliver
  and \<open>deserialize\<close> stands for \<^verbatim>\<open>actionSerializer.deserialize\<close>. The action runs in a
  worker thread of its own: what it raises ends that thread and does not reach
  \<^verbatim>\<open>read\<close>. The result is \<open>None\<close> when \<^verbatim>\<open>recvall\<close> never returns.
\<close>

definition SlaveManagementServer_read ::
  "(byte list \<Rightarrow> string option \<times> 'x arg list) \<Rightarrow> ('m, 'x) SlaveManagementServer
    \<Rightarrow> connection \<Rightarrow> source
    \<Rightarrow> (('m, 'x) SlaveManagementServer, ('m, 'x) SlaveManagementServer) outcome option" where
  "SlaveManagementServer_read deserialize st connection rx =
     (case recv rx 4 of
        Inl e \<Rightarrow> Some (on_socket_error connection st)
      | Inr (raw_msglen, rx) \<Rightarrow>
          if raw_msglen \<noteq> [] then
            (case unpack_be32 raw_msglen of
               None \<Rightarrow> Some (Inl (StructError, st))
             | Some msglen \<Rightarrow>
                 (case recvall rx msglen of
                    None \<Rightarrow> None
                  | Some (Inl e) \<Rightarrow> Some (on_socket_error connection st)
                  | Some (Inr (data, rx)) \<Rightarrow>
                      (case deserialize data of
                         (Some action, args) \<Rightarrow>
                           (case SlaveManagementServer_interpret_message st action args connection of
                              Inl (e, st') \<Rightarrow> Some (Inr st')
                            | Inr st' \<Rightarrow> Some (Inr st'))
                       | (None, args) \<Rightarrow>
                           (case slave_log_handlers st (peer_host connection) of
                              Some handled \<Rightarrow>
                                Some (Inr (st\<lparr>slave_log_handlers :=
                                  (slave_log_handlers st)(peer_host connection \<mapsto> handled @ [args])\<rparr>))
                            | None \<Rightarrow>
                                Some (Inr (log_msg DEBUG
                                  ''Got log message from yet unhandled slave socket logger'' st))))))
          else
            (case connection_lost connection st of
               Inl (e, st') \<Rightarrow>
                 (if e = KeyError then Some (on_KeyError connection st') else Some (Inl (e, st')))
             | Inr st' \<Rightarrow> Some (Inr st')))"

subsection \<open>The UI server\<close>

text \<open>
  The part of the control centre that the server reads and writes: the configuration
  snapshot and the host statistics (passed on as they are), the host-state dictionary
  and the slave server, which may be absent.
\<close>

record ('m, 'x) ControlCenter =
  config :: 'x
  host_states :: "hostname \<rightharpoonup> (int \<times> HostConnectionState)"
  host_stats :: 'x
  slave_server :: "('m, 'x) SlaveManagementServer option"

text \<open>
  The writes to shared state whose order matters: a message put on the queue of a
  connection, and an entry of the host-state dictionary set.
\<close>

datatype 'm effect =
    Put connection 'm
  | SetHostState hostname "int \<times> HostConnectionState"

text \<open>
  \<open>history\<close> is an auxiliary variable: it lists those writes in the order in which the
  code performs them and is never read by the code.
\<close>

record ('m, 'x) Server = "'m BaseServer" +
  event_queue :: "'x arg list"
  cc :: "('m, 'x) ControlCenter"
  history :: "'m effect list"

text \<open>\<^verbatim>\<open>self.send_queues[connection].put(message)\<close> on a registered connection.\<close>

definition ui_put :: "connection \<Rightarrow> 'm \<Rightarrow> ('m, 'x) Server \<Rightarrow> ('m, 'x) Server" where
  "ui_put connection message st =
     st\<lparr>send_queues := queue_put connection message (send_queues st),
        history := history st @ [Put connection message]\<rparr>"

text \<open>\<^verbatim>\<open>for message_queue in self.send_queues.values(): message_queue.put(message)\<close>.\<close>

definition ui_put_all :: "'m \<Rightarrow> ('m, 'x) Server \<Rightarrow> ('m, 'x) Server" where
  "ui_put_all message st =
     foldl (\<lambda>st connection. ui_put connection message st) st (map fst (send_queues st))"

text \<open>The handler table \<^verbatim>\<open>function_mapping\<close> and the response table \<^verbatim>\<open>receiver_mapping\<close>.\<close>

datatype ui_handler =
    Cc_start_all
  | Start_component_wrapper
  | Check_component_wrapper
  | Cc_stop_all
  | Stop_component_wrapper
  | Send_config
  | Send_host_states
  | Send_host_stats
  | Cc_cleanup
  | Cc_reconnect_with_host
  | Cc_reload_config
  | Handle_start_clone_session

definition ui_function_mapping :: "string \<rightharpoonup> ui_handler option" where
  "ui_function_mapping =
     [''start_all'' \<mapsto> Some Cc_start_all,
      ''start'' \<mapsto> Some Start_component_wrapper,
      ''check'' \<mapsto> Some Check_component_wrapper,
      ''stop_all'' \<mapsto> Some Cc_stop_all,
      ''stop'' \<mapsto> Some Stop_component_wrapper,
      ''get_conf'' \<mapsto> Some Send_config,
      ''get_host_states'' \<mapsto> Some Send_host_states,
      ''get_host_stats'' \<mapsto> Some Send_host_stats,
      ''quit'' \<mapsto> Some Cc_cleanup,
      ''reconnect_with_host'' \<mapsto> Some Cc_reconnect_with_host,
      ''unsubscribe'' \<mapsto> None,
      ''reload_config'' \<mapsto> Some Cc_reload_config,
      ''start_clone_session'' \<mapsto> Some Handle_start_clone_session]"

definition receiver_mapping :: "string \<rightharpoonup> string" where
  "receiver_mapping =
     [''get_conf'' \<mapsto> ''single'',
      ''get_host_states'' \<mapsto> ''single'',
      ''get_host_stats'' \<mapsto> ''single'']"

text \<open>
  \<^verbatim>\<open>func(*args)\<close>. The three senders take no argument and return a field of the
  control centre. The wrappers defined in the server take the component id
  (\<^verbatim>\<open>_start_component_wrapper\<close> also an optional \<^verbatim>\<open>force_mode\<close>); a call with another
  number of arguments raises \<^verbatim>\<open>TypeError\<close> before the body runs. What the bodies of
  the wrappers and the methods of the control centre do is not part of the server:
  \<open>control_center\<close> stands for it, and decides by itself whether a method of the
  control centre accepts its arguments.
\<close>

definition call_ui_handler ::
  "(ui_handler \<Rightarrow> 'x arg list \<Rightarrow> ('m, 'x) ControlCenter
      \<Rightarrow> (('m, 'x) ControlCenter, ('m, 'x) ControlCenter) outcome)
    \<Rightarrow> ui_handler \<Rightarrow> 'x arg list \<Rightarrow> ('m, 'x) Server
    \<Rightarrow> (('m, 'x) Server, 'x arg \<times> ('m, 'x) Server) outcome" where
  "call_ui_handler control_center handler args st =
     (let external =
            (case control_center handler args (cc st) of
               Inl (e, c) \<Rightarrow> Inl (e, st\<lparr>cc := c\<rparr>)
             | Inr c \<Rightarrow> Inr (NoneVal, st\<lparr>cc := c\<rparr>))
      in case handler of
           Send_config \<Rightarrow>
             (if args = [] then Inr (Opaque (config (cc st)), st) else Inl (TypeError, st))
         | Send_host_states \<Rightarrow>
             (if args = [] then Inr (HostStates (host_states (cc st)), st) else Inl (TypeError, st))
         | Send_host_stats \<Rightarrow>
             (if args = [] then Inr (Opaque (host_stats (cc st)), st) else Inl (TypeError, st))
         | Start_component_wrapper \<Rightarrow>
             (if length args = 1 \<or> length args = 2 then external else Inl (TypeError, st))
         | Check_component_wrapper \<Rightarrow>
             (if length args = 1 then external else Inl (TypeError, st))
         | Stop_component_wrapper \<Rightarrow>
             (if length args = 1 then external else Inl (TypeError, st))
         | Handle_start_clone_session \<Rightarrow>
             (if length args = 1 then external else Inl (TypeError, st))
         | _ \<Rightarrow> external)"

text \<open>\<^verbatim>\<open>Server._interpret_message(action, args, connection)\<close>.\<close>

definition Server_interpret_message ::
  "(string \<Rightarrow> 'x arg list \<Rightarrow> 'm)
    \<Rightarrow> (ui_handler \<Rightarrow> 'x arg list \<Rightarrow> ('m, 'x) ControlCenter
      \<Rightarrow> (('m, 'x) ControlCenter, ('m, 'x) ControlCenter) outcome)
    \<Rightarrow> ('m, 'x) Server \<Rightarrow> string \<Rightarrow> 'x arg list \<Rightarrow> connection
    \<Rightarrow> (('m, 'x) Server, ('m, 'x) Server) outcome" where
  "Server_interpret_message serialize_request control_center st action args connection =
     (let st = log_msg DEBUG (''Action: '' @ action) st;
          func = dict_get ui_function_mapping action
      in if action = ''unsubscribe'' then
           and_then (send_queues_pop connection st) (\<lambda>st.
           and_then (sel_unregister connection st) (\<lambda>st.
             Inr (close connection
                    (log_msg DEBUG (''Client '' @ peer_host connection @ '' unsubscribed'') st))))
         else
           (case func of
              None \<Rightarrow> Inl (AssertionError, st)
            | Some handler \<Rightarrow>
                (case receiver_mapping action of
                   Some response_type \<Rightarrow>
                     (case call_ui_handler control_center handler args st of
                        Inl (e, st') \<Rightarrow>
                          (if e = TypeError
                           then Inr (log_msg ERROR (''Ignoring unrecognized action '' @ quoted action) st')
                           else Inl (e, st'))
                      | Inr (ret, st') \<Rightarrow>
                          (let action = action @ ''_response'';
                               message = serialize_request action [ret]
                           in if response_type = ''all'' then Inr (ui_put_all message st')
                              else if response_type = ''single'' then
                                (if connection \<in> fst ` set (send_queues st')
                                 then Inr (ui_put connection message st')
                                 else Inl (KeyError, st'))
                              else Inr st'))
                 | None \<Rightarrow>
                     (case call_ui_handler control_center handler args st of
                        Inl (e, st') \<Rightarrow>
                          (if e = TypeError
                           then Inr (log_msg ERROR (''Ignoring unrecognized action '' @ quoted action) st')
                           else Inl (e, st'))
                      | Inr (ret, st') \<Rightarrow> Inr st'))))"





subsection \<open>Shutdown\<close>










subsection \<open>Concrete instances\<close>

text \<open>
  A serializer that keeps the action and the payload apart, two connections, and a
  slave server on which the first connection has authenticated as \<open>h1\<close> and an earlier
  check of \<open>c1\<close> is still buffered.
\<close>

definition ser_pair :: "string \<Rightarrow> unit arg list \<Rightarrow> string \<times> unit arg list" where
  "ser_pair action payload = (action, payload)"

definition conn_a :: connection where
  "conn_a = Connection 5 ''10.0.0.1'' 40001"

definition conn_b :: connection where
  "conn_b = Connection 6 ''10.0.0.2'' 40002"

definition slave_h1 :: "(string \<times> unit arg list, unit) SlaveManagementServer" where
  "slave_h1 =
     \<lparr>sel = {conn_a, conn_b}, sel_closed = False, keep_running = True, logger = [],
      send_queues = [(conn_a, []), (conn_b, [])], closed = {},
      notify_queue = [], check_buffer = [''c1'' \<mapsto> Some RUNNING],
      slave_log_handlers = Map.empty, port_mapping = [conn_a \<mapsto> ''h1'']\<rparr>"

definition idle :: "unit world" where
  "idle = \<lparr>clock = 0, pending = []\<rparr>"


definition deser_log :: "byte list \<Rightarrow> string option \<times> unit arg list" where
  "deser_log data = (None, [])"

text \<open>
  A UI server with two clients connected, while the slave server holds one
  \<^verbatim>\<open>DisconnectEvent\<close> for host \<open>h1\<close> on its notify queue.
\<close>

definition ui_two_clients :: "(string \<times> unit arg list, unit) Server" where
  "ui_two_clients =
     \<lparr>sel = {conn_a, conn_b}, sel_closed = False, keep_running = True, logger = [],
      send_queues = [(conn_a, []), (conn_b, [])], closed = {},
      event_queue = [],
      cc = \<lparr>config = (), host_states = Map.empty, host_stats = (),
             slave_server = Some (slave_h1\<lparr>notify_queue := [Event (DisconnectEvent ''h1'')]\<rparr>)\<rparr>,
      history = []\<rparr>"

text \<open>A control centre whose methods accept every call and change nothing.\<close>

definition cc_accepts ::
  "ui_handler \<Rightarrow> unit arg list \<Rightarrow> (string \<times> unit arg list, unit) ControlCenter
    \<Rightarrow> ((string \<times> unit arg list, unit) ControlCenter, (string \<times> unit arg list, unit) ControlCenter) outcome" where
  "cc_accepts handler args c = Inr c"




section \<open>Properties\<close>

subsection \<open>recvall\<close>

lemma recvall_loop_Eof_aux:
  assumes "recvall_loop c n d = Some y"
  shows "c = Eof \<longrightarrow> length d < n \<longrightarrow> False"
proof (rule recvall_loop.raw_induct
    [where P = "\<lambda>c n d y. c = Eof \<longrightarrow> length d < n \<longrightarrow> False", OF _ assms])
  fix f c n d y
  assume IH: "\<And>c n d y. f c n d = Some y \<Longrightarrow> c = Eof \<longrightarrow> length d < n \<longrightarrow> False"
    and step: "(if length d < n then
        (case recv c (n - length d) of
           Inl e \<Rightarrow> Some (Inl e)
         | Inr (packet, connection') \<Rightarrow> f connection' n (d @ packet))
      else Some (Inr (d, c))) = Some y"
  show "c = Eof \<longrightarrow> length d < n \<longrightarrow> False"
  proof (intro impI)
    assume "c = Eof" "length d < n"
    with step have "f Eof n d = Some y" by simp
    with IH \<open>length d < n\<close> show False by blast
  qed
qed

lemma recvall_loop_Eof: "length data < n \<Longrightarrow> recvall_loop Eof n data = None"
  using recvall_loop_Eof_aux[of Eof n data] by (cases "recvall_loop Eof n data") auto

lemma recvall_loop_eof_before:
  "eof_before c (n - length data) \<Longrightarrow> recvall_loop c n data = None"
proof (induction c arbitrary: data)
  case (Chunk b bs rest)
  then have lt: "Suc (length bs) < n - length data"
    and rest: "eof_before rest (n - length data - Suc (length bs))" by simp_all
  from lt have "recv (Chunk b bs rest) (n - length data) = Inr (b # bs, rest)" by simp
  moreover from lt have "length data < n" by simp
  ultimately have "recvall_loop (Chunk b bs rest) n data = recvall_loop rest n (data @ b # bs)"
    by (subst recvall_loop.simps) simp
  moreover have "n - length (data @ b # bs) = n - length data - Suc (length bs)" by simp
  ultimately show ?case using Chunk.IH[of "data @ b # bs"] rest by simp
next
  case Eof
  then show ?case by (simp add: recvall_loop_Eof)
next
  case Stalled
  then show ?case by simp
qed

lemma recv_length: "recv c k = Inr (packet, c') \<Longrightarrow> length packet \<le> k \<or> k = 0"
  by (cases c) (auto split: list.splits)

lemma recvall_loop_length_aux:
  assumes "recvall_loop c n d = Some y"
  shows "length d \<le> n \<longrightarrow> (\<forall>r c'. y = Inr (r, c') \<longrightarrow> length r = n)"
proof (rule recvall_loop.raw_induct
    [where P = "\<lambda>c n d y. length d \<le> n \<longrightarrow> (\<forall>r c'. y = Inr (r, c') \<longrightarrow> length r = n)",
      OF _ assms])
  fix f c n d y
  assume IH: "\<And>c n d y. f c n d = Some y \<Longrightarrow>
      length d \<le> n \<longrightarrow> (\<forall>r c'. y = Inr (r, c') \<longrightarrow> length r = n)"
    and step: "(if length d < n then
        (case recv c (n - length d) of
           Inl e \<Rightarrow> Some (Inl e)
         | Inr (packet, connection') \<Rightarrow> f connection' n (d @ packet))
      else Some (Inr (d, c))) = Some y"
  show "length d \<le> n \<longrightarrow> (\<forall>r c'. y = Inr (r, c') \<longrightarrow> length r = n)"
  proof (intro impI allI)
    fix r c'
    assume le: "length d \<le> n" and y: "y = Inr (r, c')"
    show "length r = n"
    proof (cases "length d < n")
      case False
      with step le y show ?thesis by simp
    next
      case True
      show ?thesis
      proof (cases "recv c (n - length d)")
        case (Inl e)
        with step True y show ?thesis by simp
      next
        case (Inr p)
        obtain packet c2 where p: "p = (packet, c2)" by (cases p)
        from Inr p True recv_length[of c "n - length d" packet c2]
        have "length (d @ packet) \<le> n" by auto
        moreover from step True Inr p have "f c2 n (d @ packet) = Some y" by simp
        ultimately show ?thesis using IH y by blast
      qed
    qed
  qed
qed

text \<open>
  C9. \<^verbatim>\<open>recvall(connection, n)\<close> returns only byte strings of exactly \<open>n\<close> bytes, and
  when the stream reaches end-of-file before \<open>n\<close> bytes have accumulated the loop never
  returns at all: it has no value to return on EOF, whatever the docstring says.
\<close>

theorem recvall_exact_or_diverges:
  "(recvall c n = Some (Inr (data, c')) \<longrightarrow> length data = n) \<and>
   (eof_before c n \<longrightarrow> recvall c n = None)"
proof
  show "recvall c n = Some (Inr (data, c')) \<longrightarrow> length data = n"
    using recvall_loop_length_aux[of c n "[]" "Inr (data, c')"] by (simp add: recvall_def)
  show "eof_before c n \<longrightarrow> recvall c n = None"
    using recvall_loop_eof_before[of c n "[]"] by (simp add: recvall_def)
qed

theorem recvall_exact_or_diverges_witness:
  "recvall (Chunk 1 [2, 3] Eof) 2 = Some (Inr ([1, 2], Chunk 3 [] Eof)) \<and>
   length [1, 2 :: byte] = 2 \<and>
   eof_before (Chunk 1 [2] Eof) 5 \<and> recvall (Chunk 1 [2] Eof) 5 = None"
proof -
  have a: "recvall (Chunk 1 [2, 3] Eof) 2 = Some (Inr ([1, 2], Chunk 3 [] Eof))"
    by (simp add: recvall_def recvall_loop.simps)
  have b: "eof_before (Chunk 1 [2] Eof) 5" by simp
  from a b recvall_exact_or_diverges[of "Chunk 1 [2, 3] Eof" 2 "[1, 2]" "Chunk 3 [] Eof"]
    recvall_exact_or_diverges[of "Chunk 1 [2] Eof" 5]
  show ?thesis by simp
qed

subsection \<open>Outbound operations of the slave server\<close>

lemma forward_event_frame:
  "send_queues (forward_event st a) = send_queues st"
  "port_mapping (forward_event st a) = port_mapping st"
  "sel (forward_event st a) = sel st"
  "closed (forward_event st a) = closed st"
  "keep_running (forward_event st a) = keep_running st"
  "logger (forward_event st a) = logger st"
  by (auto simp: forward_event_def Let_def split: arg.splits event.splits)

lemma deliver_state_frame:
  "send_queues (deliver_state st w) = send_queues st"
  "port_mapping (deliver_state st w) = port_mapping st"
  "sel (deliver_state st w) = sel st"
  "closed (deliver_state st w) = closed st"
  "keep_running (deliver_state st w) = keep_running st"
proof -
  have "send_queues (foldl forward_event st evs) = send_queues st \<and>
        port_mapping (foldl forward_event st evs) = port_mapping st \<and>
        sel (foldl forward_event st evs) = sel st \<and>
        closed (foldl forward_event st evs) = closed st \<and>
        keep_running (foldl forward_event st evs) = keep_running st" for evs
    by (induction evs arbitrary: st) (simp_all add: forward_event_frame)
  then show "send_queues (deliver_state st w) = send_queues st"
    "port_mapping (deliver_state st w) = port_mapping st"
    "sel (deliver_state st w) = sel st"
    "closed (deliver_state st w) = closed st"
    "keep_running (deliver_state st w) = keep_running st"
    by (simp_all add: deliver_state_def)
qed

lemma log_msg_frame:
  "send_queues (log_msg l t st) = send_queues st"
  "sel (log_msg l t st) = sel st"
  "closed (log_msg l t st) = closed st"
  "keep_running (log_msg l t st) = keep_running st"
  "logger (log_msg l t st) = logger st @ [(l, t)]"
  "BaseServer.more (log_msg l t st) = BaseServer.more st"
  by (simp_all add: log_msg_def)

lemma log_msg_slave_frame:
  "check_buffer (log_msg l t st) = check_buffer st"
  "port_mapping (log_msg l t st) = port_mapping st"
  "notify_queue (log_msg l t st) = notify_queue st"
  "slave_log_handlers (log_msg l t st) = slave_log_handlers st"
  "log_msg l t (st\<lparr>check_buffer := b\<rparr>) = (log_msg l t st)\<lparr>check_buffer := b\<rparr>"
  by (simp_all add: log_msg_def)

lemma find_connection_deliver:
  "find_connection (deliver_state st w) hostname = find_connection st hostname"
  by (simp add: find_connection_def deliver_state_frame)

lemma find_connection_log:
  "find_connection (log_msg l t st) hostname = find_connection st hostname"
  by (simp add: find_connection_def log_msg_def)

lemma find_connection_None_iff:
  "find_connection st hostname = None \<longleftrightarrow>
     (\<forall>connection \<in> fst ` set (send_queues st). port_mapping st connection \<noteq> Some hostname)"
  by (auto simp: find_connection_def find_None_iff)

lemma check_component_not_connected:
  assumes "find_connection st0 hostname = None"
  shows "check_component serialize_request st0 w0 comp_id hostname component_wait =
     Inr (UNREACHABLE,
          log_msg ERROR ''No answer from slave - returning unreachable''
            (log_msg ERROR (''Slave on '' @ quoted hostname @ '' is not connected!'')
              ((log_msg DEBUG (''Sending '' @ quoted comp_id @ '' check request to '' @ quoted hostname)
                 (deliver_state st0 w0))
               \<lparr>check_buffer :=
                  (check_buffer (deliver_state st0 w0))(comp_id \<mapsto> None)\<rparr>)),
          deliver_world w0)"
  using assms
  by (simp add: check_component_def Let_def find_connection_log find_connection_deliver log_msg_frame log_msg_slave_frame)

lemma not_connected_send_queues:
  assumes "find_connection st0 hostname = None"
  shows "\<exists>st' w'. check_component serialize_request st0 w0 comp_id hostname component_wait =
           Inr (UNREACHABLE, st', w') \<and> send_queues st' = send_queues st0 \<and>
           check_buffer st' comp_id = Some None \<and> clock w' = clock w0"
  by (simp add: check_component_not_connected[OF assms] log_msg_frame log_msg_slave_frame
      deliver_state_frame deliver_world_def)

text \<open>
  C2 (as amended). When no registered slave connection has the requested hostname as
  its identity, \<^verbatim>\<open>start_component\<close>, \<^verbatim>\<open>stop_component\<close> and
  \<^verbatim>\<open>start_clone_session\<close> raise \<^verbatim>\<open>SlaveNotReachableException\<close> and leave the state,
  hence every queue, as it was; \<^verbatim>\<open>check_component\<close> enqueues nothing either, but it
  does not raise: it returns \<^verbatim>\<open>CheckState.UNREACHABLE\<close>.
\<close>

theorem unreachable_slave_outbound:
  assumes "\<forall>connection \<in> fst ` set (send_queues st). port_mapping st connection \<noteq> Some hostname"
  shows "start_component serialize_request st comp_id hostname =
           Inl (SlaveNotReachableException (''Slave at '' @ quoted hostname @ '' is not reachable!''), st) \<and>
         stop_component serialize_request st comp_id hostname =
           Inl (SlaveNotReachableException (''Slave at '' @ quoted hostname @ '' is not reachable!''), st) \<and>
         start_clone_session serialize_request st comp_id hostname =
           Inl (SlaveNotReachableException (''Slave at '' @ quoted hostname @ '' is not reachable!''), st) \<and>
         (\<exists>st' w'. check_component serialize_request st w comp_id hostname component_wait =
                     Inr (UNREACHABLE, st', w') \<and> send_queues st' = send_queues st)"
proof -
  from assms have none: "find_connection st hostname = None"
    by (simp add: find_connection_None_iff)
  from not_connected_send_queues[OF none, of serialize_request w comp_id component_wait]
  have "\<exists>st' w'. check_component serialize_request st w comp_id hostname component_wait =
                     Inr (UNREACHABLE, st', w') \<and> send_queues st' = send_queues st"
    by blast
  with none show ?thesis
    by (simp add: start_component_def stop_component_def start_clone_session_def Let_def)
qed

lemma slave_h1_nosuchhost:
  "\<forall>connection \<in> fst ` set (send_queues slave_h1). port_mapping slave_h1 connection \<noteq> Some ''nosuchhost''"
  by (simp add: slave_h1_def conn_a_def conn_b_def)

theorem unreachable_slave_outbound_witness:
  "Some ''nosuchhost'' \<notin> port_mapping slave_h1 ` fst ` set (send_queues slave_h1) \<and>
   start_component ser_pair slave_h1 ''c1'' ''nosuchhost'' =
     Inl (SlaveNotReachableException (''Slave at '' @ quoted ''nosuchhost'' @ '' is not reachable!''), slave_h1) \<and>
   stop_component ser_pair slave_h1 ''c1'' ''nosuchhost'' =
     Inl (SlaveNotReachableException (''Slave at '' @ quoted ''nosuchhost'' @ '' is not reachable!''), slave_h1) \<and>
   start_clone_session ser_pair slave_h1 ''c1'' ''nosuchhost'' =
     Inl (SlaveNotReachableException (''Slave at '' @ quoted ''nosuchhost'' @ '' is not reachable!''), slave_h1) \<and>
   (\<exists>st' w'. check_component ser_pair slave_h1 idle ''c1'' ''nosuchhost'' 2000 =
      Inr (UNREACHABLE, st', w') \<and> send_queues st' = send_queues slave_h1)"
proof -
  have h: "Some ''nosuchhost'' \<notin> port_mapping slave_h1 ` fst ` set (send_queues slave_h1)"
    by (simp add: slave_h1_def conn_a_def conn_b_def)
  from h unreachable_slave_outbound[OF slave_h1_nosuchhost, of ser_pair "''c1''" idle 2000]
  show ?thesis by simp
qed

text \<open>
  C2 as stated fails for \<^verbatim>\<open>check_component\<close>: with no slave identified as
  \<open>nosuchhost\<close> the call returns \<^verbatim>\<open>UNREACHABLE\<close> instead of raising.
\<close>

theorem check_component_returns_where_claim_raises:
  "find_connection slave_h1 ''nosuchhost'' = None \<and>
   map_sum fst fst (check_component ser_pair slave_h1 idle ''c1'' ''nosuchhost'' 2000) = Inr UNREACHABLE"
proof -
  have none: "find_connection slave_h1 ''nosuchhost'' = None"
    by (simp add: find_connection_def slave_h1_def conn_a_def conn_b_def)
  then show ?thesis
    by (simp add: check_component_not_connected)
qed

text \<open>
  C10. On its failure path, where no registered connection has the hostname as its
  identity, \<^verbatim>\<open>check_component\<close> still overwrites \<^verbatim>\<open>check_buffer[comp_id]\<close> with
  \<^verbatim>\<open>None\<close>, whatever was buffered, does not wait (the clock is where it was), enqueues
  nothing, and returns \<^verbatim>\<open>CheckState.UNREACHABLE\<close> without raising.
\<close>

theorem check_component_failure_path:
  assumes "\<forall>connection \<in> fst ` set (send_queues st). port_mapping st connection \<noteq> Some hostname"
  shows "\<exists>st' w'. check_component serialize_request st w comp_id hostname component_wait =
           Inr (UNREACHABLE, st', w') \<and>
         check_buffer st' comp_id = Some None \<and> clock w' = clock w \<and>
         send_queues st' = send_queues st"
proof -
  from assms have none: "find_connection st hostname = None"
    by (simp add: find_connection_None_iff)
  from not_connected_send_queues[OF none, of serialize_request w comp_id component_wait]
  show ?thesis by blast
qed

theorem check_component_failure_path_witness:
  "Some ''h2'' \<notin> port_mapping slave_h1 ` fst ` set (send_queues slave_h1) \<and>
   check_buffer slave_h1 ''c1'' = Some (Some RUNNING) \<and>
   (\<exists>st' w'. check_component ser_pair slave_h1 idle ''c1'' ''h2'' 3000 =
           Inr (UNREACHABLE, st', w') \<and>
         check_buffer st' ''c1'' = Some None \<and> clock w' = clock idle \<and>
         send_queues st' = send_queues slave_h1)"
proof -
  have h: "\<forall>connection \<in> fst ` set (send_queues slave_h1). port_mapping slave_h1 connection \<noteq> Some ''h2''"
    by (simp add: slave_h1_def conn_a_def conn_b_def)
  have b: "check_buffer slave_h1 ''c1'' = Some (Some RUNNING)"
    by (simp add: slave_h1_def)
  have h': "Some ''h2'' \<notin> port_mapping slave_h1 ` fst ` set (send_queues slave_h1)"
    by (simp add: slave_h1_def conn_a_def conn_b_def)
  from h' b check_component_failure_path[OF h, of ser_pair idle "''c1''" 3000]
  show ?thesis by simp
qed

subsection \<open>The bounded wait of check_component\<close>













lemma find_connection_SomeD:
  "find_connection st hostname = Some c \<Longrightarrow>
     c \<in> fst ` set (send_queues st) \<and> port_mapping st c = Some hostname"
  by (auto simp: find_connection_def find_Some_iff)






subsection \<open>Inbound side of the slave server\<close>

lemma delete_keys: "connection \<notin> fst ` set (AList.delete connection qs)"
  by (simp add: AList.delete_eq image_iff)

text \<open>
  C7 (as amended). When the read on a registered slave connection yields no bytes, the
  server removes the connection's send queue from the registry, unregisters it from
  the selector and closes the socket. If the connection has authenticated, a
  \<^verbatim>\<open>SlaveDisconnectEvent\<close> with its hostname and peer port is put on the notify queue;
  a connection without identity is dropped without any event.
\<close>

theorem lost_connection_dropped:
  assumes "connection \<in> fst ` set (send_queues st)" and "connection \<in> sel st"
  shows "(port_mapping st connection = Some hostname \<longrightarrow>
           (\<exists>st'. SlaveManagementServer_read deserialize st connection Eof = Some (Inr st') \<and>
              send_queues st' = AList.delete connection (send_queues st) \<and>
              connection \<notin> fst ` set (send_queues st') \<and>
              sel st' = sel st - {connection} \<and>
              closed st' = insert connection (closed st) \<and>
              notify_queue st' = notify_queue st @
                [Event (SlaveDisconnectEvent hostname (peer_port connection))])) \<and>
         (port_mapping st connection = None \<longrightarrow>
           (\<exists>st'. SlaveManagementServer_read deserialize st connection Eof = Some (Inr st') \<and>
              send_queues st' = AList.delete connection (send_queues st) \<and>
              connection \<notin> fst ` set (send_queues st') \<and>
              sel st' = sel st - {connection} \<and>
              closed st' = insert connection (closed st) \<and>
              notify_queue st' = notify_queue st))"
  using assms delete_keys[of connection "send_queues st"]
  by (auto simp: SlaveManagementServer_read_def connection_lost_def on_KeyError_def
      drop_connection_def and_then_def send_queues_pop_def sel_unregister_def close_def
      log_msg_def Let_def)

theorem lost_connection_dropped_witness:
  "conn_a \<in> fst ` set (send_queues slave_h1) \<and> conn_a \<in> sel slave_h1 \<and>
   port_mapping slave_h1 conn_a = Some ''h1'' \<and>
   (\<exists>st'. SlaveManagementServer_read deser_log slave_h1 conn_a Eof = Some (Inr st') \<and>
      send_queues st' = AList.delete conn_a (send_queues slave_h1) \<and>
      conn_a \<notin> fst ` set (send_queues st') \<and>
      sel st' = sel slave_h1 - {conn_a} \<and>
      closed st' = insert conn_a (closed slave_h1) \<and>
      notify_queue st' = notify_queue slave_h1 @
        [Event (SlaveDisconnectEvent ''h1'' (peer_port conn_a))])"
proof -
  have h1: "conn_a \<in> fst ` set (send_queues slave_h1)" by (simp add: slave_h1_def)
  have h2: "conn_a \<in> sel slave_h1" by (simp add: slave_h1_def)
  have h3: "port_mapping slave_h1 conn_a = Some ''h1''" by (simp add: slave_h1_def)
  from h1 h2 h3 lost_connection_dropped[OF h1 h2, of "''h1''" deser_log]
  show ?thesis by simp
qed

text \<open>
  C7 as stated fails for a registered connection that has not authenticated: the
  lookup of its hostname raises \<^verbatim>\<open>KeyError\<close>, the handler drops the connection, and
  the notify queue stays empty.
\<close>

theorem unauthenticated_loss_sends_no_event:
  "conn_b \<in> fst ` set (send_queues slave_h1) \<and> conn_b \<in> sel slave_h1 \<and>
   map_option (map_sum (notify_queue \<circ> snd) notify_queue)
     (SlaveManagementServer_read deser_log slave_h1 conn_b Eof) = Some (Inr [])"
  by (simp add: SlaveManagementServer_read_def connection_lost_def on_KeyError_def
      drop_connection_def and_then_def send_queues_pop_def sel_unregister_def close_def
      log_msg_def Let_def slave_h1_def conn_a_def conn_b_def)

text \<open>
  C8 (as amended). The identity map gives each connection at most one hostname, and an
  \<^verbatim>\<open>auth\<close> on a connection sets that connection's identity to the hostname it
  carries, whatever it was before, and changes the identity of no other connection
  and no queue. Nothing keeps two connections from holding the same hostname.
\<close>

theorem auth_sets_identity:
  "\<exists>st'. SlaveManagementServer_interpret_message st ''auth'' (Str hostname # rest) connection = Inr st' \<and>
     port_mapping st' connection = Some hostname \<and>
     (\<forall>c. c \<noteq> connection \<longrightarrow> port_mapping st' c = port_mapping st c) \<and>
     send_queues st' = send_queues st"
  by (simp add: SlaveManagementServer_interpret_message_def)

theorem auth_sets_identity_witness:
  "port_mapping slave_h1 conn_a = Some ''h1'' \<and>
   (\<exists>st'. SlaveManagementServer_interpret_message slave_h1 ''auth'' [Str ''h9''] conn_a = Inr st' \<and>
     port_mapping st' conn_a = Some ''h9'' \<and>
     (\<forall>c. c \<noteq> conn_a \<longrightarrow> port_mapping st' c = port_mapping slave_h1 c) \<and>
     send_queues st' = send_queues slave_h1)"
proof -
  have h: "port_mapping slave_h1 conn_a = Some ''h1''" by (simp add: slave_h1_def)
  from h auth_sets_identity[of slave_h1 "''h9''" "[]" conn_a] show ?thesis by simp
qed

text \<open>
  C8 as stated fails: after the second connection authenticates under the hostname of
  the first, two registered connections are mapped to \<open>h1\<close>.
\<close>

theorem two_connections_one_hostname:
  "conn_a \<noteq> conn_b \<and>
   conn_a \<in> fst ` set (send_queues slave_h1) \<and> conn_b \<in> fst ` set (send_queues slave_h1) \<and>
   SlaveManagementServer_interpret_message slave_h1 ''auth'' [Str ''h1''] conn_b =
     Inr (slave_h1\<lparr>port_mapping := [conn_a \<mapsto> ''h1'', conn_b \<mapsto> ''h1'']\<rparr>)"
  by (simp add: SlaveManagementServer_interpret_message_def slave_h1_def conn_a_def conn_b_def)

subsection \<open>Event fan-out of the UI server\<close>















subsection \<open>Dispatch of inbound actions\<close>

lemma map_of_queue_put:
  "map_of (queue_put c m qs) = (map_of qs)(c := map_option (\<lambda>q. q @ [m]) (map_of qs c))"
  by (induction qs) (auto simp: queue_put_def)

lemma queue_put_keys: "map fst (queue_put c m qs) = map fst qs"
  by (induction qs) (auto simp: queue_put_def)

text \<open>
  C5. For an action of the response table received on a registered connection, with
  the handler returning \<open>r\<close>, the server puts the serialized
  \<^verbatim>\<open>(action + "_response", [r])\<close> at the end of that connection's send queue and
  leaves the queue of every other connection as it was.
\<close>

theorem response_to_sender_only:
  assumes "action \<in> {''get_conf'', ''get_host_states'', ''get_host_stats''}"
    and "dict_get ui_function_mapping action = Some handler"
    and "call_ui_handler control_center handler args st = Inr (r, st1)"
    and "map_of (send_queues st) connection = Some q"
  shows "\<exists>st'. Server_interpret_message serialize_request control_center st action args connection = Inr st' \<and>
    map_of (send_queues st') connection = Some (q @ [serialize_request (action @ ''_response'') [r]]) \<and>
    (\<forall>c. c \<noteq> connection \<longrightarrow> map_of (send_queues st') c = map_of (send_queues st) c) \<and>
    map fst (send_queues st') = map fst (send_queues st)"
proof -
  define st0 where "st0 = log_msg DEBUG (''Action: '' @ action) st"
  from assms(1) have rm: "receiver_mapping action = Some ''single''" and nu: "action \<noteq> ''unsubscribe''"
    by (auto simp: receiver_mapping_def)
  from assms(1,2) have h: "handler \<in> {Send_config, Send_host_states, Send_host_stats}"
    by (auto simp: ui_function_mapping_def dict_get_def)
  have cc0: "cc st0 = cc st" by (simp add: st0_def log_msg_def)
  from h assms(3) have call0: "call_ui_handler control_center handler args st0 = Inr (r, st0)"
    by (auto simp: call_ui_handler_def cc0 split: if_splits)
  have sq0: "send_queues st0 = send_queues st" by (simp add: st0_def log_msg_frame)
  from assms(4) have reg: "connection \<in> fst ` set (send_queues st0)"
    unfolding sq0 by (metis domI dom_map_of_conv_image_fst)
  have res: "Server_interpret_message serialize_request control_center st action args connection =
      Inr (ui_put connection (serialize_request (action @ ''_response'') [r]) st0)"
    using nu rm assms(2) call0 reg
    unfolding st0_def Server_interpret_message_def Let_def by simp
  have sq: "send_queues (ui_put connection (serialize_request (action @ ''_response'') [r]) st0) =
      queue_put connection (serialize_request (action @ ''_response'') [r]) (send_queues st)"
    by (simp add: ui_put_def sq0)
  show ?thesis
    using res assms(4) by (simp add: sq map_of_queue_put queue_put_keys)
qed

theorem response_to_sender_only_witness:
  "''get_host_states'' \<in> {''get_conf'', ''get_host_states'', ''get_host_stats''} \<and>
   dict_get ui_function_mapping ''get_host_states'' = Some Send_host_states \<and>
   call_ui_handler cc_accepts Send_host_states [] ui_two_clients =
     Inr (HostStates Map.empty, ui_two_clients) \<and>
   map_of (send_queues ui_two_clients) conn_a = Some [] \<and>
   (\<exists>st'. Server_interpret_message ser_pair cc_accepts ui_two_clients ''get_host_states'' [] conn_a = Inr st' \<and>
    map_of (send_queues st') conn_a = Some ([] @ [ser_pair (''get_host_states'' @ ''_response'') [HostStates Map.empty]]) \<and>
    (\<forall>c. c \<noteq> conn_a \<longrightarrow> map_of (send_queues st') c = map_of (send_queues ui_two_clients) c) \<and>
    map fst (send_queues st') = map fst (send_queues ui_two_clients))"
proof -
  have h1: "''get_host_states'' \<in> {''get_conf'', ''get_host_states'', ''get_host_stats''}" by simp
  have h2: "dict_get ui_function_mapping ''get_host_states'' = Some Send_host_states"
    by (simp add: dict_get_def ui_function_mapping_def)
  have h3: "call_ui_handler cc_accepts Send_host_states [] ui_two_clients =
     Inr (HostStates Map.empty, ui_two_clients)"
    by (simp add: call_ui_handler_def ui_two_clients_def)
  have h4: "map_of (send_queues ui_two_clients) conn_a = Some []"
    by (simp add: ui_two_clients_def)
  from h1 h2 h3 h4 response_to_sender_only[OF h1 h2 h3 h4, of ser_pair]
  show ?thesis by blast
qed

text \<open>
  C6 at an action that is in no handler table. On both servers the dispatch stops at
  \<^verbatim>\<open>assert func is not None\<close>: it raises \<^verbatim>\<open>AssertionError\<close> and writes no error to
  the log (the UI server has logged the action at debug before, the slave server
  nothing), so the branch that logs \<^verbatim>\<open>Ignoring unrecognized action\<close> is not reached.
  Queues and registration are as before. An action whose handler does not
  accept the arguments does reach that branch.
\<close>

theorem unknown_action_assertion_error:
  "Server_interpret_message ser_pair cc_accepts ui_two_clients ''bogus'' [] conn_a =
     Inl (AssertionError, log_msg DEBUG ''Action: bogus'' ui_two_clients) \<and>
   SlaveManagementServer_interpret_message slave_h1 ''bogus'' [] conn_a =
     Inl (AssertionError, slave_h1) \<and>
   Server_interpret_message ser_pair cc_accepts ui_two_clients ''get_conf'' [Str ''x''] conn_a =
     Inr (log_msg ERROR (''Ignoring unrecognized action '' @ quoted ''get_conf'')
           (log_msg DEBUG ''Action: get_conf'' ui_two_clients))"
  by (simp add: Server_interpret_message_def SlaveManagementServer_interpret_message_def
      dict_get_def ui_function_mapping_def slave_function_mapping_def receiver_mapping_def
      call_ui_handler_def Let_def)

subsection \<open>Shutdown\<close>
















end
